theory Spec2Isabelle
  imports Complex_Main "HOL-Library.AList"
begin

section \<open>JERSI drawer: a shallow embedding of \<^verbatim>\<open>jersi_gui.py\<close>\<close>

text \<open>
  The development follows \<^verbatim>\<open>src/jersi_drawer_tk/jersi_gui.py\<close>. Conventions:
  \<^item> a Python \<^verbatim>\<open>str\<close> is a \<^typ>\<open>string\<close>; a character is a code point below 256;
  \<^item> a Python \<^verbatim>\<open>dict\<close> is an association list in insertion order; \<^const>\<open>AList.update\<close>
    is \<^verbatim>\<open>d[k] = v\<close> (replace in place, or append a new key) and \<^const>\<open>map_of\<close> is
    the lookup;
  \<^item> a Python \<^verbatim>\<open>float\<close> is an IEEE 754 double: the real number it denotes, with every
    operation rounded to the nearest double (see the section on doubles);
  \<^item> a function that mutates global state and may raise returns the pair of the
    exception raised (if any) and the global state as the call leaves it.
\<close>

subsection \<open>Exceptions\<close>

text \<open>
  \<^verbatim>\<open>JersiError(message)\<close> is the program's own exception (lines 35-48). The other
  constructors are the built-in exceptions the modelled code can raise: a missing
  dictionary key, \<^verbatim>\<open>raise\<close> applied to a value that is not an exception (line 1171), and
  a failed tuple unpacking.
\<close>

datatype py_error =
    JersiError string
  | KeyError string
  | TypeError string
  | ValueError string

definition quoted :: "string \<Rightarrow> string" where
  "quoted s = [CHR 0x27] @ s @ [CHR 0x27]"

subsection \<open>Doubles\<close>

text \<open>
  A Python \<^verbatim>\<open>float\<close> is an IEEE 754 binary64 number. A finite double is modelled as the
  real number it denotes (the two zeros are one number), and an arithmetic operation on
  doubles as the exact operation followed by the rounding to the nearest double, ties to
  the even significand. The model has no infinity and no NaN: it is the arithmetic of
  the program as long as the results stay below \<open>2 ^ 1024\<close> in magnitude, as all the
  values of this module do. A number \<open>x\<close> is a double when \<open>round_double x = x\<close>.
\<close>

definition pow2 :: "int \<Rightarrow> real" where
  "pow2 e = (if 0 \<le> e then 2 ^ nat e else 1 / 2 ^ nat (- e))"

definition round_half_even :: "real \<Rightarrow> int" where
  "round_half_even q =
    (let f = \<lfloor>q\<rfloor>
     in if q - of_int f < 1 / 2 then f
        else if 1 / 2 < q - of_int f then f + 1
        else if even f then f else f + 1)"

text \<open>
  The significand has 53 bits; the exponent of a normal number is that of its leading
  bit, and the numbers below \<open>2 ^ - 1022\<close> share the exponent \<open>- 1022\<close>.
\<close>

definition round_double :: "real \<Rightarrow> real" where
  "round_double x =
    (let e = max \<lfloor>log 2 \<bar>x\<bar>\<rfloor> (- 1022)
     in sgn x * (of_int (round_half_even (\<bar>x\<bar> / pow2 (e - 52))) * pow2 (e - 52)))"

definition d_add :: "real \<Rightarrow> real \<Rightarrow> real" where
  "d_add x y = round_double (x + y)"

definition d_sub :: "real \<Rightarrow> real \<Rightarrow> real" where
  "d_sub x y = round_double (x - y)"

definition d_mul :: "real \<Rightarrow> real \<Rightarrow> real" where
  "d_mul x y = round_double (x * y)"

text \<open>The divisors of this module are the constants 2, 6 and 11, never zero.\<close>

definition d_div :: "real \<Rightarrow> real \<Rightarrow> real" where
  "d_div x y = round_double (x / y)"

text \<open>\<^verbatim>\<open>float(i)\<close>, also where an \<^verbatim>\<open>int\<close> meets a \<^verbatim>\<open>float\<close> in an operation.\<close>

definition d_of_int :: "int \<Rightarrow> real" where
  "d_of_int i = round_double (of_int i)"

text \<open>
  The functions of the \<^verbatim>\<open>math\<close> module and the operator \<^verbatim>\<open>**\<close> on floats come from the C
  library of the platform, which does not promise correctly rounded results: they are
  parameters of the model. \<^verbatim>\<open>math.pi\<close> is the double nearest to \<open>pi\<close>.
\<close>

record libm =
  m_cos :: "real \<Rightarrow> real"
  m_sin :: "real \<Rightarrow> real"
  m_tan :: "real \<Rightarrow> real"
  m_sqrt :: "real \<Rightarrow> real"
  m_pow :: "real \<Rightarrow> real \<Rightarrow> real"

definition math_pi :: real where
  "math_pi = 884279719003555 / 2 ^ 48"

subsection \<open>TinyVector (lines 51-169)\<close>

type_synonym TinyVector = "real \<times> real"

definition tv_add :: "TinyVector \<Rightarrow> TinyVector \<Rightarrow> TinyVector" where
  "tv_add a b = (d_add (fst a) (fst b), d_add (snd a) (snd b))"

definition tv_sub :: "TinyVector \<Rightarrow> TinyVector \<Rightarrow> TinyVector" where
  "tv_sub a b = (d_sub (fst a) (fst b), d_sub (snd a) (snd b))"

definition tv_neg :: "TinyVector \<Rightarrow> TinyVector" where
  "tv_neg a = (- fst a, - snd a)"

text \<open>\<^verbatim>\<open>k*v\<close> and \<^verbatim>\<open>v*k\<close> both end in \<^verbatim>\<open>TinyVector.__mul__\<close>: each component times \<open>k\<close>.\<close>

definition tv_mul :: "real \<Rightarrow> TinyVector \<Rightarrow> TinyVector" where
  "tv_mul k a = (d_mul (fst a) k, d_mul (snd a) k)"

subsection \<open>Geometrical constants (lines 181-228)\<close>

definition CANVAS_RATIO :: int where
  "CANVAS_RATIO = 1"

definition CANVAS_HEIGHT :: int where
  "CANVAS_HEIGHT = 600"

text \<open>\<^verbatim>\<open>int(CANVAS_HEIGHT * CANVAS_RATIO)\<close>, of a product that is an \<^verbatim>\<open>int\<close> already.\<close>

definition CANVAS_WIDTH :: int where
  "CANVAS_WIDTH = CANVAS_HEIGHT * CANVAS_RATIO"

definition NX :: int where
  "NX = 9 + 2"

definition NY :: int where
  "NY = 9"

definition HEXA_VERTEX_COUNT :: int where
  "HEXA_VERTEX_COUNT = 6"

definition HEXA_SIDE_ANGLE :: real where
  "HEXA_SIDE_ANGLE = d_div (d_mul (d_of_int 2) math_pi) (d_of_int HEXA_VERTEX_COUNT)"

text \<open>The quotient of two \<^verbatim>\<open>int\<close>s is the double nearest to the exact quotient.\<close>

definition HEXA_WIDTH :: real where
  "HEXA_WIDTH = round_double (of_int (min CANVAS_HEIGHT CANVAS_WIDTH) / of_int (max NX NY))"

definition HEXA_SIDE :: "libm \<Rightarrow> real" where
  "HEXA_SIDE lb = d_mul HEXA_WIDTH (m_tan lb (d_div HEXA_SIDE_ANGLE (d_of_int 2)))"

definition HEXA_DELTA_Y :: "libm \<Rightarrow> real" where
  "HEXA_DELTA_Y lb =
    m_sqrt lb (d_sub (m_pow lb (HEXA_SIDE lb) (d_of_int 2))
                     (m_pow lb (d_div HEXA_WIDTH (d_of_int 2)) (d_of_int 2)))"

definition ORIGIN :: TinyVector where
  "ORIGIN = (round_double (of_int CANVAS_WIDTH / 2), round_double (of_int CANVAS_HEIGHT / 2))"

definition UNIT_X :: TinyVector where
  "UNIT_X = (d_of_int 1, d_of_int 0)"

definition UNIT_Y :: TinyVector where
  "UNIT_Y = (d_of_int 0, d_of_int (- 1))"

definition UNIT_U :: TinyVector where
  "UNIT_U = UNIT_X"

definition UNIT_V :: "libm \<Rightarrow> TinyVector" where
  "UNIT_V lb =
    tv_add (tv_mul (m_cos lb HEXA_SIDE_ANGLE) UNIT_X) (tv_mul (m_sin lb HEXA_SIDE_ANGLE) UNIT_Y)"

subsection \<open>Cubes (lines 246-284)\<close>

datatype CubeColor = BLACK | WHITE

datatype CubeConfig = BOTTOM | SINGLE | TOP

datatype CubeType = KING | FOOL | PAPER | ROCK | SCISSORS | MOUNTAIN | WISE

text \<open>The enumeration's values: \<^verbatim>\<open>CubeType.KING.value == 'K'\<close> and so on.\<close>

fun CubeType_letter :: "CubeType \<Rightarrow> string" where
  "CubeType_letter KING = ''K''"
| "CubeType_letter FOOL = ''F''"
| "CubeType_letter PAPER = ''P''"
| "CubeType_letter ROCK = ''R''"
| "CubeType_letter SCISSORS = ''S''"
| "CubeType_letter MOUNTAIN = ''M''"
| "CubeType_letter WISE = ''W''"

type_synonym cube = "CubeType \<times> CubeColor"

definition CUBE_COLORED_TYPES_items :: "(string \<times> cube) list" where
  "CUBE_COLORED_TYPES_items =
    [(''K'', (KING, WHITE)),
     (''F'', (FOOL, WHITE)),
     (''R'', (ROCK, WHITE)),
     (''P'', (PAPER, WHITE)),
     (''S'', (SCISSORS, WHITE)),
     (''M'', (MOUNTAIN, WHITE)),
     (''W'', (WISE, WHITE)),
     (''k'', (KING, BLACK)),
     (''f'', (FOOL, BLACK)),
     (''r'', (ROCK, BLACK)),
     (''p'', (PAPER, BLACK)),
     (''s'', (SCISSORS, BLACK)),
     (''m'', (MOUNTAIN, BLACK)),
     (''w'', (WISE, BLACK))]"

definition CUBE_COLORED_TYPES :: "string \<rightharpoonup> cube" where
  "CUBE_COLORED_TYPES = map_of CUBE_COLORED_TYPES_items"

subsection \<open>The hexagon registry (lines 239-243 and 287-412)\<close>

datatype HexagonColor = INNER | MAIN | OUTER | EXTRA

text \<open>
  The shift of a reserve cell is a vector of doubles computed with \<^verbatim>\<open>math.tan\<close>,
  \<^verbatim>\<open>math.sqrt\<close> and \<^verbatim>\<open>**\<close>: the registry keeps it as a function of the library.
\<close>

record Hexagon =
  label :: string
  position_uv :: "int \<times> int"
  color :: HexagonColor
  is_extra :: bool
  extra_shift :: "(libm \<Rightarrow> TinyVector) option"

type_synonym alls = "(string \<times> Hexagon) list"

text \<open>\<^verbatim>\<open>Hexagon.__init__\<close>: the assertion of line 292, then the fields.\<close>

definition Hexagon_init ::
  "string \<Rightarrow> int \<times> int \<Rightarrow> HexagonColor \<Rightarrow> bool \<Rightarrow> (libm \<Rightarrow> TinyVector) option
     \<Rightarrow> py_error + Hexagon" where
  "Hexagon_init lbl uv col extra shift =
    (if extra = (shift \<noteq> None)
     then Inr \<lparr>label = lbl, position_uv = uv, color = col, is_extra = extra, extra_shift = shift\<rparr>
     else Inl (JersiError (''is_extra and extra_shift not consisten for label '' @ quoted lbl)))"

text \<open>
  \<^verbatim>\<open>Hexagon.add\<close> (lines 301-306): the assertion that the label is new, the
  construction, then \<^verbatim>\<open>Hexagon.alls[label] = ...\<close>. Both raises precede the assignment.
\<close>

definition Hexagon_add ::
  "alls \<Rightarrow> string \<Rightarrow> int \<times> int \<Rightarrow> HexagonColor \<Rightarrow> bool \<Rightarrow> (libm \<Rightarrow> TinyVector) option
     \<Rightarrow> py_error option \<times> alls" where
  "Hexagon_add hs lbl uv col extra shift =
    (if lbl \<in> set (map fst hs)
     then (Some (JersiError (''no hexagon with label '' @ quoted lbl)), hs)
     else (case Hexagon_init lbl uv col extra shift of
             Inl e \<Rightarrow> (Some e, hs)
           | Inr h \<Rightarrow> (None, AList.update lbl h hs)))"

text \<open>The module-level calls of lines 309-412, in source order.\<close>

type_synonym add_call =
  "string \<times> (int \<times> int) \<times> HexagonColor \<times> bool \<times> (libm \<Rightarrow> TinyVector) option"

definition shift_a :: "libm \<Rightarrow> TinyVector" where
  "shift_a lb =
    tv_sub (tv_mul (d_mul (3 / 4) HEXA_WIDTH) UNIT_X) (tv_mul (HEXA_DELTA_Y lb) UNIT_Y)"

definition shift_b :: "libm \<Rightarrow> TinyVector" where
  "shift_b lb = tv_mul (d_mul (1 / 4) HEXA_WIDTH) UNIT_X"

definition shift_c :: "libm \<Rightarrow> TinyVector" where
  "shift_c lb =
    tv_add (tv_mul (d_mul (3 / 4) HEXA_WIDTH) UNIT_X) (tv_mul (HEXA_DELTA_Y lb) UNIT_Y)"

definition shift_g :: "libm \<Rightarrow> TinyVector" where
  "shift_g lb =
    tv_sub (tv_mul (d_mul (- (3 / 4)) HEXA_WIDTH) UNIT_X) (tv_mul (HEXA_DELTA_Y lb) UNIT_Y)"

definition shift_h :: "libm \<Rightarrow> TinyVector" where
  "shift_h lb = tv_mul (d_mul (- (1 / 4)) HEXA_WIDTH) UNIT_X"

definition shift_i :: "libm \<Rightarrow> TinyVector" where
  "shift_i lb =
    tv_add (tv_mul (d_mul (- (3 / 4)) HEXA_WIDTH) UNIT_X) (tv_mul (HEXA_DELTA_Y lb) UNIT_Y)"

definition add_calls :: "add_call list" where
  "add_calls =
   [(''a1'', (-1, -4), OUTER, False, None),
    (''a2'', (-0, -4), OUTER, False, None),
    (''a3'', (1, -4), OUTER, False, None),
    (''a4'', (2, -4), OUTER, False, None),
    (''a5'', (3, -4), OUTER, False, None),
    (''a6'', (4, -4), OUTER, False, None),
    (''a7'', (5, -4), OUTER, False, None),
    (''a'', (6, -4), EXTRA, True, Some shift_a),
    (''b1'', (-2, -3), OUTER, False, None),
    (''b2'', (-1, -3), MAIN, False, None),
    (''b3'', (0, -3), MAIN, False, None),
    (''b4'', (1, -3), MAIN, False, None),
    (''b5'', (2, -3), MAIN, False, None),
    (''b6'', (3, -3), MAIN, False, None),
    (''b7'', (4, -3), MAIN, False, None),
    (''b8'', (5, -3), OUTER, False, None),
    (''b'', (6, -3), EXTRA, True, Some shift_b),
    (''c1'', (-2, -2), OUTER, False, None),
    (''c2'', (-1, -2), MAIN, False, None),
    (''c3'', (0, -2), INNER, False, None),
    (''c4'', (1, -2), INNER, False, None),
    (''c5'', (2, -2), INNER, False, None),
    (''c6'', (3, -2), MAIN, False, None),
    (''c7'', (4, -2), OUTER, False, None),
    (''c'', (5, -2), EXTRA, True, Some shift_c),
    (''d1'', (-3, -1), OUTER, False, None),
    (''d2'', (-2, -1), MAIN, False, None),
    (''d3'', (-1, -1), INNER, False, None),
    (''d4'', (0, -1), MAIN, False, None),
    (''d5'', (1, -1), MAIN, False, None),
    (''d6'', (2, -1), INNER, False, None),
    (''d7'', (3, -1), MAIN, False, None),
    (''d8'', (4, -1), OUTER, False, None),
    (''e1'', (-4, 0), OUTER, False, None),
    (''e2'', (-3, 0), MAIN, False, None),
    (''e3'', (-2, 0), INNER, False, None),
    (''e4'', (-1, 0), MAIN, False, None),
    (''e5'', (0, 0), INNER, False, None),
    (''e6'', (1, 0), MAIN, False, None),
    (''e7'', (2, 0), INNER, False, None),
    (''e8'', (3, 0), MAIN, False, None),
    (''e9'', (4, 0), OUTER, False, None),
    (''f1'', (-4, 1), OUTER, False, None),
    (''f2'', (-3, 1), MAIN, False, None),
    (''f3'', (-2, 1), INNER, False, None),
    (''f4'', (-1, 1), MAIN, False, None),
    (''f5'', (0, 1), MAIN, False, None),
    (''f6'', (1, 1), INNER, False, None),
    (''f7'', (2, 1), MAIN, False, None),
    (''f8'', (3, 1), OUTER, False, None),
    (''g'', (-5, 2), EXTRA, True, Some shift_g),
    (''g1'', (-4, 2), OUTER, False, None),
    (''g2'', (-3, 2), MAIN, False, None),
    (''g3'', (-2, 2), INNER, False, None),
    (''g4'', (-1, 2), INNER, False, None),
    (''g5'', (0, 2), INNER, False, None),
    (''g6'', (1, 2), MAIN, False, None),
    (''g7'', (2, 2), OUTER, False, None),
    (''h'', (-6, 3), EXTRA, True, Some shift_h),
    (''h1'', (-5, 3), OUTER, False, None),
    (''h2'', (-4, 3), MAIN, False, None),
    (''h3'', (-3, 3), MAIN, False, None),
    (''h4'', (-2, 3), MAIN, False, None),
    (''h5'', (-1, 3), MAIN, False, None),
    (''h6'', (0, 3), MAIN, False, None),
    (''h7'', (1, 3), MAIN, False, None),
    (''h8'', (2, 3), OUTER, False, None),
    (''i'', (-6, 4), EXTRA, True, Some shift_i),
    (''i1'', (-5, 4), OUTER, False, None),
    (''i2'', (-4, 4), OUTER, False, None),
    (''i3'', (-3, 4), OUTER, False, None),
    (''i4'', (-2, 4), OUTER, False, None),
    (''i5'', (-1, 4), OUTER, False, None),
    (''i6'', (0, 4), OUTER, False, None),
    (''i7'', (1, 4), OUTER, False, None)]"

text \<open>Running the calls one after the other; the first exception ends the module's import.\<close>

fun run_add_calls :: "alls \<Rightarrow> add_call list \<Rightarrow> py_error option \<times> alls" where
  "run_add_calls hs [] = (None, hs)"
| "run_add_calls hs ((lbl, uv, col, extra, shift) # calls) =
    (case Hexagon_add hs lbl uv col extra shift of
       (None, hs') \<Rightarrow> run_add_calls hs' calls
     | (Some e, hs') \<Rightarrow> (Some e, hs'))"

definition Hexagon_alls :: alls where
  "Hexagon_alls = snd (run_add_calls [] add_calls)"

subsection \<open>The abstract state of the board (lines 231, 1056-1120, 1155-1171)\<close>

text \<open>
  \<^verbatim>\<open>STATE[label]\<close> is a two-element list (bottom cube, top cube) whose entries are \<^verbatim>\<open>None\<close>
  or a colored cube type; only the indices 0 and 1 are ever used, so the list is
  modelled as the pair \<open>(slot0, slot1)\<close> of options.
\<close>

type_synonym slots = "cube option \<times> cube option"

type_synonym STATE = "(string \<times> slots) list"

definition reset_state :: "alls \<Rightarrow> STATE \<Rightarrow> STATE" where
  "reset_state hs S = foldl (\<lambda>S' (_, hexagon). AList.update (label hexagon) (None, None) S') S hs"

text \<open>
  \<^verbatim>\<open>set_cube_at_position\<close> (lines 1155-1171). The second assertion repeats the test of
  the first one (on \<^verbatim>\<open>position_label\<close>) under the message about the cube label. The last
  branch is \<^verbatim>\<open>raise("No room ...")\<close>: the operand is a \<^verbatim>\<open>str\<close>, so Python raises
  \<^verbatim>\<open>TypeError\<close> instead.
\<close>

definition raise_str_message :: string where
  "raise_str_message = ''exceptions must derive from BaseException''"

definition set_cube_at_position ::
  "alls \<Rightarrow> STATE \<Rightarrow> string \<Rightarrow> string \<Rightarrow> py_error option \<times> STATE" where
  "set_cube_at_position hs S position_label cube_label =
    (if position_label \<notin> set (map fst hs)
     then (Some (JersiError (''no hexagon at label '' @ quoted position_label)), S)
     else if position_label \<notin> set (map fst hs)
     then (Some (JersiError (''no cube colored type '' @ quoted cube_label)), S)
     else (case map_of S position_label of
             None \<Rightarrow> (Some (KeyError position_label), S)
           | Some (slot0, slot1) \<Rightarrow>
               if slot0 = None
               then (case CUBE_COLORED_TYPES cube_label of
                       None \<Rightarrow> (Some (KeyError cube_label), S)
                     | Some c \<Rightarrow> (None, AList.update position_label (Some c, slot1) S))
               else if slot1 = None
               then (case CUBE_COLORED_TYPES cube_label of
                       None \<Rightarrow> (Some (KeyError cube_label), S)
                     | Some c \<Rightarrow> (None, AList.update position_label (slot0, Some c) S))
               else (Some (TypeError raise_str_message), S)))"

text \<open>A sequence of \<^verbatim>\<open>set_cube_at_position(position, cube)\<close> calls; an exception ends it.\<close>

fun set_cubes :: "alls \<Rightarrow> STATE \<Rightarrow> (string \<times> string) list \<Rightarrow> py_error option \<times> STATE" where
  "set_cubes hs S [] = (None, S)"
| "set_cubes hs S ((position_label, cube_label) # calls) =
    (case set_cube_at_position hs S position_label cube_label of
       (None, S') \<Rightarrow> set_cubes hs S' calls
     | (Some e, S') \<Rightarrow> (Some e, S'))"

definition init_state_calls :: "(string \<times> string) list" where
  "init_state_calls =
   [(''b1'', ''F''), (''b8'', ''F''), (''a4'', ''K''),
    (''b2'', ''R''), (''b3'', ''P''), (''b4'', ''S''),
    (''b5'', ''R''), (''b6'', ''P''), (''b7'', ''S''),
    (''a3'', ''R''), (''a2'', ''S''), (''a1'', ''P''),
    (''a5'', ''S''), (''a6'', ''R''), (''a7'', ''P''),
    (''h1'', ''f''), (''h8'', ''f''), (''i4'', ''k''),
    (''h7'', ''r''), (''h6'', ''p''), (''h5'', ''s''),
    (''h4'', ''r''), (''h3'', ''p''), (''h2'', ''s''),
    (''i5'', ''r''), (''i6'', ''s''), (''i7'', ''p''),
    (''i3'', ''s''), (''i2'', ''r''), (''i1'', ''p''),
    (''c'', ''W''), (''c'', ''W''),
    (''b'', ''M''), (''b'', ''M''),
    (''a'', ''M''), (''a'', ''M''),
    (''i'', ''m''), (''i'', ''m''),
    (''h'', ''m''), (''h'', ''m''),
    (''g'', ''w''), (''g'', ''w'')]"

definition init_state :: "alls \<Rightarrow> STATE \<Rightarrow> py_error option \<times> STATE" where
  "init_state hs S = set_cubes hs (reset_state hs S) init_state_calls"

subsection \<open>Reading a state file (lines 1123-1152)\<close>

definition LF :: char where
  "LF = CHR 0x0A"

definition CR :: char where
  "CR = CHR 0x0D"

text \<open>
  The file is opened in text mode: the stream hands out the text with every
  \<^verbatim>\<open>'\r\n'\<close> and every lone \<^verbatim>\<open>'\r'\<close> translated to \<^verbatim>\<open>'\n'\<close>, and iterating over it yields the
  lines, each with its \<^verbatim>\<open>'\n'\<close> (the last line may lack one).
\<close>

fun universal_newlines :: "string \<Rightarrow> string" where
  "universal_newlines [] = []"
| "universal_newlines [c] = (if c = CR then [LF] else [c])"
| "universal_newlines (c # d # cs) =
    (if c = CR
     then (if d = LF then LF # universal_newlines cs else LF # universal_newlines (d # cs))
     else c # universal_newlines (d # cs))"

fun file_lines_from :: "string \<Rightarrow> string \<Rightarrow> string list" where
  "file_lines_from cur [] = (if cur = [] then [] else [cur])"
| "file_lines_from cur (c # cs) =
    (if c = LF then (cur @ [c]) # file_lines_from [] cs else file_lines_from (cur @ [c]) cs)"

definition file_lines :: "string \<Rightarrow> string list" where
  "file_lines text = file_lines_from [] (universal_newlines text)"

text \<open>
  The class \<^verbatim>\<open>\s\<close> of a \<^verbatim>\<open>str\<close> pattern, among the code points below 256: the
  characters 9 to 13, 28 to 32, 133 and 160.
\<close>

definition is_space :: "char \<Rightarrow> bool" where
  "is_space c =
    (let n = (of_char c :: nat)
     in (9 \<le> n \<and> n \<le> 13) \<or> (28 \<le> n \<and> n \<le> 32) \<or> n = 133 \<or> n = 160)"

text \<open>\<^verbatim>\<open>$\<close> matches at the end of the string and just before a newline that ends it.\<close>

definition at_end :: "string \<Rightarrow> bool" where
  "at_end rest = (rest = [] \<or> rest = [LF])"

text \<open>
  \<^verbatim>\<open>re.match(r'^\s*$', line)\<close>: the newline is itself in \<^verbatim>\<open>\s\<close>, so the line matches
  exactly when all its characters are.
\<close>

definition line_is_blank :: "string \<Rightarrow> bool" where
  "line_is_blank line = at_end (dropWhile is_space line)"

text \<open>
  \<^verbatim>\<open>re.match(r'^\s*#.*$', line)\<close>: \<^verbatim>\<open>#\<close> is the first character outside \<^verbatim>\<open>\s\<close>, and \<^verbatim>\<open>.\<close>
  matches everything but a newline.
\<close>

definition line_is_comment :: "string \<Rightarrow> bool" where
  "line_is_comment line =
    (case dropWhile is_space line of
       [] \<Rightarrow> False
     | c # rest \<Rightarrow> c = CHR ''#'' \<and> at_end (dropWhile (\<lambda>d. d \<noteq> LF) rest))"

text \<open>\<^verbatim>\<open>re.sub(r'\s', '', line)\<close>.\<close>

definition strip_spaces :: "string \<Rightarrow> string" where
  "strip_spaces line = filter (\<lambda>c. \<not> is_space c) line"

text \<open>\<^verbatim>\<open>re.split\<close> on a one-character pattern: empty pieces are kept.\<close>

fun re_split_from :: "char \<Rightarrow> string \<Rightarrow> string \<Rightarrow> string list" where
  "re_split_from sep cur [] = [cur]"
| "re_split_from sep cur (c # cs) =
    (if c = sep then cur # re_split_from sep [] cs else re_split_from sep (cur @ [c]) cs)"

definition re_split :: "char \<Rightarrow> string \<Rightarrow> string list" where
  "re_split sep s = re_split_from sep [] s"

definition in_range :: "char \<Rightarrow> char \<Rightarrow> char \<Rightarrow> bool" where
  "in_range lo hi c = ((of_char lo :: nat) \<le> of_char c \<and> (of_char c :: nat) \<le> of_char hi)"

text \<open>\<^verbatim>\<open>re.match(r'^([KFRPSMW]|[kfrpsmw]):[a-i][1-9]?$', item)\<close>.\<close>

definition item_matches :: "string \<Rightarrow> bool" where
  "item_matches item =
    (case item of
       c # colon # row # rest \<Rightarrow>
         (c \<in> set ''KFRPSMW'' \<or> c \<in> set ''kfrpsmw'') \<and> colon = CHR '':'' \<and>
         in_range (CHR ''a'') (CHR ''i'') row \<and>
         (at_end rest \<or>
          (case rest of [] \<Rightarrow> False
           | digit # rest' \<Rightarrow> in_range (CHR ''1'') (CHR ''9'') digit \<and> at_end rest'))
     | _ \<Rightarrow> False)"

definition wrong_item_message :: "string \<Rightarrow> string \<Rightarrow> string" where
  "wrong_item_message item line = ''wrong item '' @ quoted item @ '' in line '' @ quoted line"

text \<open>The inner loop (lines 1143-1148) over the items of one stripped line.\<close>

fun read_items :: "string \<Rightarrow> string list \<Rightarrow> string list list \<Rightarrow> py_error + string list list" where
  "read_items line [] instructions = Inr instructions"
| "read_items line (item # items) instructions =
    (if item_matches item
     then read_items line items (instructions @ [re_split (CHR '':'') item])
     else Inl (JersiError (wrong_item_message item line)))"

text \<open>The outer loop (lines 1132-1148) over the lines of the file.\<close>

fun read_lines :: "string list \<Rightarrow> string list list \<Rightarrow> py_error + string list list" where
  "read_lines [] instructions = Inr instructions"
| "read_lines (line # lines) instructions =
    (if line_is_blank line then read_lines lines instructions
     else if line_is_comment line then read_lines lines instructions
     else (let line' = strip_spaces line
           in case read_items line' (re_split (CHR ''/'') line') instructions of
                Inl e \<Rightarrow> Inl e
              | Inr instructions' \<Rightarrow> read_lines lines instructions'))"

text \<open>
  The last loop (lines 1151-1152): each instruction is unpacked into
  \<^verbatim>\<open>(cube_label, position_label)\<close>; an instruction that is not a list of two strings
  cannot be unpacked.
\<close>

definition unpack_message :: string where
  "unpack_message = ''wrong number of values to unpack (expected 2)''"

fun apply_instructions :: "alls \<Rightarrow> STATE \<Rightarrow> string list list \<Rightarrow> py_error option \<times> STATE" where
  "apply_instructions hs S [] = (None, S)"
| "apply_instructions hs S (instruction # instructions) =
    (case instruction of
       [cube_label, position_label] \<Rightarrow>
         (case set_cube_at_position hs S position_label cube_label of
            (None, S') \<Rightarrow> apply_instructions hs S' instructions
          | (Some e, S') \<Rightarrow> (Some e, S'))
     | _ \<Rightarrow> (Some (ValueError unpack_message), S))"

text \<open>
  \<^verbatim>\<open>read_state_file\<close>, given the text of the file. \<^verbatim>\<open>reset_state()\<close> comes first; the
  flag \<^verbatim>\<open>file_is_valid\<close> is still \<^verbatim>\<open>True\<close> whenever line 1150 is reached.
\<close>

definition read_state_file :: "alls \<Rightarrow> STATE \<Rightarrow> string \<Rightarrow> py_error option \<times> STATE" where
  "read_state_file hs S text =
    (let S1 = reset_state hs S
     in case read_lines (file_lines text) [] of
          Inl e \<Rightarrow> (Some e, S1)
        | Inr instructions \<Rightarrow> apply_instructions hs S1 instructions)"



subsection \<open>From the oblique frame to the plane (lines 710-715 and 757-762)\<close>

text \<open>The centre \<^verbatim>\<open>draw_hexagon\<close> computes from its arguments.\<close>

definition draw_hexagon_center :: "libm \<Rightarrow> int \<times> int \<Rightarrow> TinyVector option \<Rightarrow> TinyVector" where
  "draw_hexagon_center lb uv shift =
    (case uv of (u, v) \<Rightarrow>
       (let hexagon_center =
              tv_add ORIGIN
                (tv_mul HEXA_WIDTH
                   (tv_add (tv_mul (d_of_int u) UNIT_U) (tv_mul (d_of_int v) (UNIT_V lb))))
        in case shift of None \<Rightarrow> hexagon_center | Some s \<Rightarrow> tv_add hexagon_center s))"


subsection \<open>Notions the properties are stated with\<close>

text \<open>The registry entry a successful \<^verbatim>\<open>Hexagon.add\<close> call stores.\<close>

definition mk_hexagon :: "add_call \<Rightarrow> string \<times> Hexagon" where
  "mk_hexagon call =
    (case call of (lbl, uv, col, extra, shift) \<Rightarrow>
       (lbl, \<lparr>label = lbl, position_uv = uv, color = col, is_extra = extra, extra_shift = shift\<rparr>))"

text \<open>The stack of a cell, bottom first, and the stack found at a label.\<close>

definition slots_cubes :: "slots \<Rightarrow> cube list" where
  "slots_cubes sl =
    (case fst sl of None \<Rightarrow> [] | Some c \<Rightarrow> [c]) @ (case snd sl of None \<Rightarrow> [] | Some c \<Rightarrow> [c])"

definition cubes_at :: "STATE \<Rightarrow> string \<Rightarrow> cube list" where
  "cubes_at S l = (case map_of S l of None \<Rightarrow> [] | Some sl \<Rightarrow> slots_cubes sl)"

text \<open>The stacks of the board cells (\<open>extra = False\<close>) or of the reserve cells (\<open>extra = True\<close>).\<close>

definition cell_stacks :: "alls \<Rightarrow> STATE \<Rightarrow> bool \<Rightarrow> cube list list" where
  "cell_stacks hs S extra = map (cubes_at S) (map fst (filter (\<lambda>(k, h). is_extra h = extra) hs))"

definition count_color :: "CubeColor \<Rightarrow> cube list list \<Rightarrow> nat" where
  "count_color col stacks = length (filter (\<lambda>c. snd c = col) (concat stacks))"

definition count_height :: "nat \<Rightarrow> cube list list \<Rightarrow> nat" where
  "count_height n stacks = length (filter (\<lambda>st. length st = n) stacks)"

text \<open>
  The states reached from a reset (of any earlier state) by successful calls of
  \<^verbatim>\<open>set_cube_at_position\<close>, for the registry of the program.
\<close>

inductive reachable :: "STATE \<Rightarrow> bool" where
  after_reset: "reachable (reset_state Hexagon_alls S)"
| after_set_cube:
    "reachable S \<Longrightarrow> set_cube_at_position Hexagon_alls S position_label cube_label = (None, S')
       \<Longrightarrow> reachable S'"

text \<open>
  The fragments of a text: the items of its lines that are neither blank nor comments,
  in file order, each with its stripped line. A fragment is malformed when the pattern
  of line 1144 rejects it.
\<close>

definition token_lines :: "string list \<Rightarrow> string list" where
  "token_lines ls =
    map strip_spaces (filter (\<lambda>l. \<not> line_is_blank l \<and> \<not> line_is_comment l) ls)"

definition line_fragments :: "string list \<Rightarrow> (string \<times> string) list" where
  "line_fragments ls = concat (map (\<lambda>l. map (\<lambda>i. (i, l)) (re_split (CHR ''/'') l)) (token_lines ls))"

definition fragments :: "string \<Rightarrow> (string \<times> string) list" where
  "fragments text = line_fragments (file_lines text)"

definition malformed :: "string \<times> string \<Rightarrow> bool" where
  "malformed fragment = (\<not> item_matches (fst fragment))"

text \<open>The lower-case form of an ASCII letter.\<close>

definition to_lower :: "char \<Rightarrow> char" where
  "to_lower c =
    (case map_of (zip ''ABCDEFGHIJKLMNOPQRSTUVWXYZ'' ''abcdefghijklmnopqrstuvwxyz'') c of
       None \<Rightarrow> c
     | Some d \<Rightarrow> d)"

text \<open>
  The code of a piece as the notation writes it: the letter of the kind, in upper case
  for white and in lower case for black.
\<close>

definition cube_code :: "cube \<Rightarrow> string" where
  "cube_code piece =
    (case snd piece of
       WHITE \<Rightarrow> CubeType_letter (fst piece)
     | BLACK \<Rightarrow> map to_lower (CubeType_letter (fst piece)))"

text \<open>
  Modelled from the spec: the rotation of a vector by the angle \<open>a\<close> in the right-handed
  convention in which Y increases upward, computed in doubles with the cosine and the
  sine of the library, and the flip of the Y axis between that convention and the
  screen.
\<close>

definition rotate_ccw :: "libm \<Rightarrow> real \<Rightarrow> TinyVector \<Rightarrow> TinyVector" where
  "rotate_ccw lb a p =
    (d_sub (d_mul (fst p) (m_cos lb a)) (d_mul (snd p) (m_sin lb a)),
     d_add (d_mul (fst p) (m_sin lb a)) (d_mul (snd p) (m_cos lb a)))"

definition flip_y :: "TinyVector \<Rightarrow> TinyVector" where
  "flip_y p = (fst p, - snd p)"

text \<open>
  An example of the library: the doubles that CPython returns on Linux x86-64 for the
  arguments this module passes (\<^verbatim>\<open>math.cos\<close> and \<^verbatim>\<open>math.sin\<close> of \<open>HEXA_SIDE_ANGLE\<close>,
  \<^verbatim>\<open>math.tan\<close> of its half), with a correctly rounded square root and power.
\<close>

definition example_libm :: libm where
  "example_libm =
    \<lparr>m_cos = (\<lambda>x. 4503599627370497 / 2 ^ 53),
     m_sin = (\<lambda>x. 3900231685776981 / 2 ^ 52),
     m_tan = (\<lambda>x. 1300077228592327 / 2 ^ 51),
     m_sqrt = (\<lambda>x. round_double (sqrt x)),
     m_pow = (\<lambda>x y. round_double (x powr y))\<rparr>"


text \<open>Example texts of state files.\<close>

definition two_kings_text :: string where
  "two_kings_text = ''K:a4'' @ [LF] @ ''k:i4'' @ [LF]"

definition wrong_item_text :: string where
  "wrong_item_text = ''K:a4/Q:b2'' @ [LF] @ ''Z'' @ [LF]"


text \<open>An example: the state after a reset and two white wise cubes put on the reserve cell \<open>c\<close>.\<close>

definition two_wise_at_c :: STATE where
  "two_wise_at_c =
    snd (set_cubes Hexagon_alls (reset_state Hexagon_alls []) [(''c'', ''W''), (''c'', ''W'')])"


subsection \<open>Basic facts\<close>

lemma update_fresh: "k \<notin> fst ` set al \<Longrightarrow> AList.update k v al = al @ [(k, v)]"
  by (induction al) auto

lemma run_add_calls_fresh:
  "distinct (map fst calls) \<Longrightarrow> set (map fst calls) \<inter> set (map fst hs) = {} \<Longrightarrow>
   \<forall>(lbl, uv, col, extra, shift) \<in> set calls. extra = (shift \<noteq> None) \<Longrightarrow>
   run_add_calls hs calls = (None, hs @ map mk_hexagon calls)"
proof (induction calls arbitrary: hs)
  case Nil
  then show ?case by simp
next
  case (Cons c calls)
  obtain lbl uv col extra shift where c: "c = (lbl, uv, col, extra, shift)"
    by (cases c) auto
  from Cons.prems have fresh: "lbl \<notin> fst ` set hs" and ok: "extra = (shift \<noteq> None)"
    by (auto simp: c)
  have step: "Hexagon_add hs lbl uv col extra shift = (None, hs @ [mk_hexagon c])"
    using fresh ok by (simp add: Hexagon_add_def Hexagon_init_def update_fresh mk_hexagon_def c)
  have "run_add_calls (hs @ [mk_hexagon c]) calls = (None, (hs @ [mk_hexagon c]) @ map mk_hexagon calls)"
    using Cons.prems by (intro Cons.IH) (auto simp: c mk_hexagon_def)
  then show ?case by (simp add: c step)
qed

lemma startup_succeeds:
  "run_add_calls [] add_calls = (None, Hexagon_alls) \<and> Hexagon_alls = map mk_hexagon add_calls"
proof -
  have d: "distinct (map fst add_calls)" unfolding add_calls_def by simp
  have c: "\<forall>(lbl, uv, col, extra, shift) \<in> set add_calls. extra = (shift \<noteq> None)"
    unfolding add_calls_def by simp
  have "run_add_calls [] add_calls = (None, [] @ map mk_hexagon add_calls)"
    by (rule run_add_calls_fresh) (use d c in auto)
  then show ?thesis by (simp add: Hexagon_alls_def)
qed

lemma Hexagon_labels: "map fst Hexagon_alls =
    [''a1'', ''a2'', ''a3'', ''a4'', ''a5'', ''a6'', ''a7'', ''a'',
     ''b1'', ''b2'', ''b3'', ''b4'', ''b5'', ''b6'', ''b7'', ''b8'', ''b'',
     ''c1'', ''c2'', ''c3'', ''c4'', ''c5'', ''c6'', ''c7'', ''c'',
     ''d1'', ''d2'', ''d3'', ''d4'', ''d5'', ''d6'', ''d7'', ''d8'',
     ''e1'', ''e2'', ''e3'', ''e4'', ''e5'', ''e6'', ''e7'', ''e8'', ''e9'',
     ''f1'', ''f2'', ''f3'', ''f4'', ''f5'', ''f6'', ''f7'', ''f8'',
     ''g'', ''g1'', ''g2'', ''g3'', ''g4'', ''g5'', ''g6'', ''g7'',
     ''h'', ''h1'', ''h2'', ''h3'', ''h4'', ''h5'', ''h6'', ''h7'', ''h8'',
     ''i'', ''i1'', ''i2'', ''i3'', ''i4'', ''i5'', ''i6'', ''i7'']"
  by (simp add: startup_succeeds add_calls_def mk_hexagon_def)

lemma label_Hexagon_alls: "map (label \<circ> snd) Hexagon_alls = map fst Hexagon_alls"
  by (simp add: startup_succeeds mk_hexagon_def split_def)

lemma map_of_reset_state:
  "map_of (reset_state hs S) l =
    (if l \<in> set (map (label \<circ> snd) hs) then Some (None, None) else map_of S l)"
  unfolding reset_state_def
  by (induction hs arbitrary: S) (auto simp: update_conv' split: prod.splits)

lemma map_of_reset_Hexagon_alls:
  "l \<in> set (map fst Hexagon_alls) \<Longrightarrow> map_of (reset_state Hexagon_alls S) l = Some (None, None)"
  by (simp only: map_of_reset_state label_Hexagon_alls if_True)


lemma set_cube_place0:
  "p \<in> set (map fst hs) \<Longrightarrow> map_of S p = Some (None, t) \<Longrightarrow> CUBE_COLORED_TYPES c = Some x \<Longrightarrow>
   set_cube_at_position hs S p c = (None, AList.update p (Some x, t) S)"
  by (simp add: set_cube_at_position_def)

lemma set_cube_place1:
  "p \<in> set (map fst hs) \<Longrightarrow> map_of S p = Some (Some b, None) \<Longrightarrow> CUBE_COLORED_TYPES c = Some x \<Longrightarrow>
   set_cube_at_position hs S p c = (None, AList.update p (Some b, Some x) S)"
  by (simp add: set_cube_at_position_def)

lemma set_cube_full:
  "p \<in> set (map fst hs) \<Longrightarrow> map_of S p = Some (Some b, Some t) \<Longrightarrow>
   set_cube_at_position hs S p c = (Some (TypeError raise_str_message), S)"
  by (simp add: set_cube_at_position_def)

lemma set_cube_failure_keeps_state:
  "set_cube_at_position hs S p c = (Some e, S') \<Longrightarrow> S' = S"
  by (auto simp: set_cube_at_position_def split: if_splits option.splits prod.splits)

lemma CUBE_COLORED_TYPES_simps:
  "CUBE_COLORED_TYPES ''K'' = Some (KING, WHITE)"
  "CUBE_COLORED_TYPES ''F'' = Some (FOOL, WHITE)"
  "CUBE_COLORED_TYPES ''R'' = Some (ROCK, WHITE)"
  "CUBE_COLORED_TYPES ''P'' = Some (PAPER, WHITE)"
  "CUBE_COLORED_TYPES ''S'' = Some (SCISSORS, WHITE)"
  "CUBE_COLORED_TYPES ''M'' = Some (MOUNTAIN, WHITE)"
  "CUBE_COLORED_TYPES ''W'' = Some (WISE, WHITE)"
  "CUBE_COLORED_TYPES ''k'' = Some (KING, BLACK)"
  "CUBE_COLORED_TYPES ''f'' = Some (FOOL, BLACK)"
  "CUBE_COLORED_TYPES ''r'' = Some (ROCK, BLACK)"
  "CUBE_COLORED_TYPES ''p'' = Some (PAPER, BLACK)"
  "CUBE_COLORED_TYPES ''s'' = Some (SCISSORS, BLACK)"
  "CUBE_COLORED_TYPES ''m'' = Some (MOUNTAIN, BLACK)"
  "CUBE_COLORED_TYPES ''w'' = Some (WISE, BLACK)"
  by (simp_all add: CUBE_COLORED_TYPES_def CUBE_COLORED_TYPES_items_def)


lemma two_wise_at_c_eq:
  "set_cubes Hexagon_alls (reset_state Hexagon_alls []) [(''c'', ''W''), (''c'', ''W'')] = (None, two_wise_at_c) \<and>
   map_of two_wise_at_c ''c'' = Some (Some (WISE, WHITE), Some (WISE, WHITE))"
  unfolding two_wise_at_c_def
  by (simp add: set_cube_place0 set_cube_place1 update_conv' map_of_reset_Hexagon_alls
      Hexagon_labels CUBE_COLORED_TYPES_simps)

lemma reachable_two_wise_at_c: "reachable two_wise_at_c"
proof -
  let ?S0 = "reset_state Hexagon_alls []"
  have c: "''c'' \<in> set (map fst Hexagon_alls)" by (simp add: Hexagon_labels)
  have m0: "map_of ?S0 ''c'' = Some (None, None)" using c by (rule map_of_reset_Hexagon_alls)
  let ?S1 = "AList.update ''c'' (Some (WISE, WHITE), None) ?S0"
  have s1: "set_cube_at_position Hexagon_alls ?S0 ''c'' ''W'' = (None, ?S1)"
    using c m0 by (simp add: set_cube_place0 CUBE_COLORED_TYPES_simps)
  have m1: "map_of ?S1 ''c'' = Some (Some (WISE, WHITE), None)" by (simp add: update_conv')
  let ?S2 = "AList.update ''c'' (Some (WISE, WHITE), Some (WISE, WHITE)) ?S1"
  have s2: "set_cube_at_position Hexagon_alls ?S1 ''c'' ''W'' = (None, ?S2)"
    using c m1 by (simp add: set_cube_place1 CUBE_COLORED_TYPES_simps)
  have "two_wise_at_c = ?S2" by (simp add: two_wise_at_c_def s1 s2)
  moreover have "reachable ?S2"
    using after_set_cube [OF after_set_cube [OF after_reset s1] s2] .
  ultimately show ?thesis by simp
qed

subsection \<open>Facts about doubles\<close>

lemma round_double_0: "round_double 0 = 0"
  by (simp add: round_double_def)

lemma round_double_minus: "round_double (- x) = - round_double x"
  by (simp add: round_double_def Let_def)

lemma pow2_powr: "pow2 e = 2 powr real_of_int e"
proof (cases "0 \<le> e")
  case True
  then show ?thesis
    by (simp add: pow2_def powr_real_of_int' power_int_def)
next
  case False
  then show ?thesis
    by (simp add: pow2_def powr_real_of_int' power_int_def field_simps)
qed

text \<open>The rounding of a positive number whose leading bit is known.\<close>

lemma round_double_eval:
  assumes "0 < x" "pow2 e \<le> x" "x < pow2 (e + 1)" "- 1022 \<le> e"
  shows "round_double x = of_int (round_half_even (x / pow2 (e - 52))) * pow2 (e - 52)"
proof -
  have "2 powr real_of_int e \<le> x \<and> x < 2 powr real_of_int (e + 1)"
    using assms(2,3) unfolding pow2_powr by blast
  with assms(1) have "\<lfloor>log 2 x\<rfloor> = e"
    using floor_log_eq_powr_iff [of x 2 e] by simp
  with assms show ?thesis
    by (simp add: round_double_def)
qed

lemma round_double_1: "round_double 1 = 1"
  by (subst round_double_eval [where e = 0]) (simp_all add: pow2_def round_half_even_def Let_def)

lemma d_of_int_simps: "d_of_int 0 = 0" "d_of_int 1 = 1" "d_of_int (- 1) = - 1"
  using round_double_minus [of 1] by (simp_all add: d_of_int_def round_double_0 round_double_1)

lemma UNIT_X_eq: "UNIT_X = (1, 0)"
  by (simp add: UNIT_X_def d_of_int_simps)

lemma UNIT_Y_eq: "UNIT_Y = (0, - 1)"
  by (simp add: UNIT_Y_def d_of_int_simps)

lemma UNIT_V_eq:
  assumes "round_double (m_cos lb HEXA_SIDE_ANGLE) = m_cos lb HEXA_SIDE_ANGLE"
    and "round_double (m_sin lb HEXA_SIDE_ANGLE) = m_sin lb HEXA_SIDE_ANGLE"
  shows "UNIT_V lb = (m_cos lb HEXA_SIDE_ANGLE, - m_sin lb HEXA_SIDE_ANGLE)"
  using assms
  by (simp add: UNIT_V_def UNIT_X_eq UNIT_Y_eq tv_add_def tv_mul_def d_add_def d_mul_def
      round_double_0 round_double_minus)

lemma rotate_UNIT_U:
  assumes "round_double (m_cos lb a) = m_cos lb a" and "round_double (m_sin lb a) = m_sin lb a"
  shows "rotate_ccw lb a UNIT_U = (m_cos lb a, m_sin lb a)"
  using assms
  by (simp add: rotate_ccw_def UNIT_U_def UNIT_X_eq d_add_def d_sub_def d_mul_def round_double_0)

subsection \<open>C1: a third cube on a full stack\<close>

text \<open>
  C1. A cube is accepted on a cell that holds none or one (\<open>set_cube_place0\<close>,
  \<open>set_cube_place1\<close>). On a cell that holds two, the call fails and leaves the state as it
  was (\<open>set_cube_full\<close>, \<open>set_cube_failure_keeps_state\<close>), but the exception is the
  \<^verbatim>\<open>TypeError\<close> of \<^verbatim>\<open>raise("...")\<close>, not a \<^verbatim>\<open>JersiError\<close> with the message about the missing
  room: after two white wise cubes on the reserve cell \<open>c\<close>, a third one is refused with
  that \<^verbatim>\<open>TypeError\<close>, and the stack still holds the first two, in order.
\<close>

theorem third_push_raises_TypeError:
  "set_cube_at_position Hexagon_alls two_wise_at_c ''c'' ''W'' = (Some (TypeError raise_str_message), two_wise_at_c) \<and>
   cubes_at two_wise_at_c ''c'' = [(WISE, WHITE), (WISE, WHITE)]"
proof -
  have c: "''c'' \<in> set (map fst Hexagon_alls)" by (simp add: Hexagon_labels)
  have m: "map_of two_wise_at_c ''c'' = Some (Some (WISE, WHITE), Some (WISE, WHITE))"
    using two_wise_at_c_eq by simp
  show ?thesis using set_cube_full [OF c m] m by (simp add: cubes_at_def slots_cubes_def)
qed

subsection \<open>C2: a malformed item aborts the reading\<close>

lemma read_items_eq:
  "read_items line items ins =
    (case filter (\<lambda>i. \<not> item_matches i) items of
       [] \<Rightarrow> Inr (ins @ map (re_split (CHR '':'')) items)
     | i # _ \<Rightarrow> Inl (JersiError (wrong_item_message i line)))"
  by (induction items arbitrary: ins) (auto split: list.splits)

lemma filter_malformed_items:
  "filter malformed (map (\<lambda>i. (i, l)) items) = map (\<lambda>i. (i, l)) (filter (\<lambda>i. \<not> item_matches i) items)"
  by (induction items) (auto simp: malformed_def)

lemma line_fragments_Nil: "line_fragments [] = []"
  by (simp add: line_fragments_def token_lines_def)

lemma line_fragments_Cons:
  "line_fragments (l # ls) =
    (if line_is_blank l \<or> line_is_comment l then line_fragments ls
     else map (\<lambda>i. (i, strip_spaces l)) (re_split (CHR ''/'') (strip_spaces l)) @ line_fragments ls)"
  by (simp add: line_fragments_def token_lines_def)

lemma read_lines_eq:
  "read_lines ls ins =
    (case filter malformed (line_fragments ls) of
       [] \<Rightarrow> Inr (ins @ map (\<lambda>f. re_split (CHR '':'') (fst f)) (line_fragments ls))
     | f # _ \<Rightarrow> Inl (JersiError (wrong_item_message (fst f) (snd f))))"
proof (induction ls arbitrary: ins)
  case Nil
  then show ?case by (simp add: line_fragments_Nil)
next
  case (Cons l ls)
  show ?case
  proof (cases "line_is_blank l \<or> line_is_comment l")
    case True
    then have eq: "line_fragments (l # ls) = line_fragments ls"
      by (simp add: line_fragments_Cons)
    from True show ?thesis unfolding eq using Cons.IH [of ins] by auto
  next
    case False
    let ?l = "strip_spaces l"
    let ?items = "re_split (CHR ''/'') ?l"
    show ?thesis
    proof (cases "filter (\<lambda>i. \<not> item_matches i) ?items")
      case Nil
      from False have eq: "line_fragments (l # ls) = map (\<lambda>i. (i, ?l)) ?items @ line_fragments ls"
        by (simp add: line_fragments_Cons)
      from Nil False show ?thesis
        unfolding eq
        using Cons.IH [of "ins @ map (re_split (CHR '':'')) ?items"]
        by (simp add: read_items_eq filter_malformed_items Let_def comp_def split: list.splits)
    next
      case (Cons i rest)
      from False have eq: "line_fragments (l # ls) = map (\<lambda>i. (i, ?l)) ?items @ line_fragments ls"
        by (simp add: line_fragments_Cons)
      from Cons False show ?thesis
        unfolding eq
        by (simp add: read_items_eq filter_malformed_items Let_def)
    qed
  qed
qed

lemma file_lines_X: "file_lines (''X:a4'' @ [LF]) = [''X:a4'' @ [LF]]"
  by (simp add: file_lines_def LF_def CR_def)

lemma fragments_X: "fragments (''X:a4'' @ [LF]) = [(''X:a4'', ''X:a4'')]"
  unfolding fragments_def file_lines_X
  by (simp add: line_fragments_Cons line_fragments_Nil LF_def line_is_blank_def
      line_is_comment_def is_space_def at_end_def strip_spaces_def re_split_def)

text \<open>
  C2. When a line that is neither blank nor a comment has, after the removal of its
  white space and the split at \<open>/\<close>, an item the pattern rejects, \<^verbatim>\<open>read_state_file\<close>
  raises the \<^verbatim>\<open>JersiError\<close> whose message is \<^verbatim>\<open>wrong item '<item>' in line '<line>'\<close> for
  the first such item of the file and its stripped line, whatever follows it; no
  instruction has been applied, the state is the one \<^verbatim>\<open>reset_state\<close> left. So any
  malformed item makes the reading fail in this way, and the text \<open>X:a4\<close> fails with the
  message that quotes \<open>X:a4\<close>.
\<close>

theorem malformed_item_aborts:
  "(filter malformed (fragments text) = (item, line) # others \<longrightarrow>
      read_state_file hs S text =
        (Some (JersiError (''wrong item '' @ [CHR 0x27] @ item @ [CHR 0x27] @
                           '' in line '' @ [CHR 0x27] @ line @ [CHR 0x27])),
         reset_state hs S)) \<and>
   (fragment \<in> set (fragments text) \<and> malformed fragment \<longrightarrow>
      (\<exists>item line. (item, line) \<in> set (fragments text) \<and> malformed (item, line) \<and>
         read_state_file hs S text =
           (Some (JersiError (''wrong item '' @ [CHR 0x27] @ item @ [CHR 0x27] @
                              '' in line '' @ [CHR 0x27] @ line @ [CHR 0x27])),
            reset_state hs S))) \<and>
   read_state_file hs S (''X:a4'' @ [CHR 0x0A]) =
     (Some (JersiError (''wrong item '' @ [CHR 0x27] @ ''X:a4'' @ [CHR 0x27] @
                        '' in line '' @ [CHR 0x27] @ ''X:a4'' @ [CHR 0x27])),
      reset_state hs S)"
proof -
  have first: "read_state_file hs S t =
      (Some (JersiError (''wrong item '' @ [CHR 0x27] @ i @ [CHR 0x27] @
                         '' in line '' @ [CHR 0x27] @ l @ [CHR 0x27])), reset_state hs S)"
    if "filter malformed (fragments t) = (i, l) # m" for t i l m
    using that
    by (simp add: read_state_file_def read_lines_eq fragments_def wrong_item_message_def quoted_def)
  have some: "\<exists>item line. (item, line) \<in> set (fragments text) \<and> malformed (item, line) \<and>
         read_state_file hs S text =
           (Some (JersiError (''wrong item '' @ [CHR 0x27] @ item @ [CHR 0x27] @
                              '' in line '' @ [CHR 0x27] @ line @ [CHR 0x27])),
            reset_state hs S)"
    if "fragment \<in> set (fragments text)" "malformed fragment"
  proof -
    from that have "fragment \<in> set (filter malformed (fragments text))" by simp
    then obtain i l m where f: "filter malformed (fragments text) = (i, l) # m"
      by (cases "filter malformed (fragments text)") auto
    then have "(i, l) \<in> set (filter malformed (fragments text))" by simp
    then have "(i, l) \<in> set (fragments text)" "malformed (i, l)" by auto
    with first [OF f] show ?thesis by blast
  qed
  have "fragments (''X:a4'' @ [CHR 0x0A]) = [(''X:a4'', ''X:a4'')]"
    using fragments_X by (simp add: LF_def)
  then have "filter malformed (fragments (''X:a4'' @ [CHR 0x0A])) = (''X:a4'', ''X:a4'') # []"
    by (simp add: malformed_def item_matches_def)
  from first [OF this] first some show ?thesis by blast
qed

lemma fragments_wrong_item_text:
  "fragments wrong_item_text = [(''K:a4'', ''K:a4/Q:b2''), (''Q:b2'', ''K:a4/Q:b2''), (''Z'', ''Z'')]"
  by (simp add: wrong_item_text_def fragments_def file_lines_def LF_def CR_def line_fragments_Cons
      line_fragments_Nil line_is_blank_def line_is_comment_def is_space_def at_end_def
      strip_spaces_def re_split_def)

text \<open>A text whose second item and third item are malformed: the second one is reported.\<close>

theorem malformed_item_aborts_witness:
  "filter malformed (fragments wrong_item_text) = [(''Q:b2'', ''K:a4/Q:b2''), (''Z'', ''Z'')] \<and>
   read_state_file Hexagon_alls two_wise_at_c wrong_item_text =
     (Some (JersiError (''wrong item '' @ [CHR 0x27] @ ''Q:b2'' @ [CHR 0x27] @
                        '' in line '' @ [CHR 0x27] @ ''K:a4/Q:b2'' @ [CHR 0x27])),
      reset_state Hexagon_alls two_wise_at_c)"
proof -
  have f: "filter malformed (fragments wrong_item_text) = (''Q:b2'', ''K:a4/Q:b2'') # [(''Z'', ''Z'')]"
    unfolding fragments_wrong_item_text
    by (simp add: malformed_def item_matches_def in_range_def at_end_def)
  from malformed_item_aborts [of wrong_item_text "''Q:b2''" "''K:a4/Q:b2''" "[(''Z'', ''Z'')]"
      Hexagon_alls two_wise_at_c]
  have "read_state_file Hexagon_alls two_wise_at_c wrong_item_text =
     (Some (JersiError (''wrong item '' @ [CHR 0x27] @ ''Q:b2'' @ [CHR 0x27] @
                        '' in line '' @ [CHR 0x27] @ ''K:a4/Q:b2'' @ [CHR 0x27])),
      reset_state Hexagon_alls two_wise_at_c)"
    using f by blast
  with f show ?thesis by simp
qed

subsection \<open>C3: a failed load\<close>









subsection \<open>C4: adding a hexagon to the registry\<close>

text \<open>
  C4. For a cell whose \<open>is_extra\<close> agrees with the presence of an \<open>extra_shift\<close> (as for
  each of the calls of the module), \<^verbatim>\<open>Hexagon.add\<close> fails with the \<^verbatim>\<open>JersiError\<close> that quotes
  the label when the label is already registered, leaving the registry as it was, and
  otherwise appends the hexagon under that label and raises nothing. The labels of the
  registry therefore stay pairwise distinct; the module's calls all succeed, and the
  labels of the registry they build are pairwise distinct.
\<close>

theorem Hexagon_add_contract:
  "extra = (shift \<noteq> None) \<Longrightarrow>
   (lbl \<in> set (map fst hs) \<longrightarrow>
      Hexagon_add hs lbl uv col extra shift =
        (Some (JersiError (''no hexagon with label '' @ [CHR 0x27] @ lbl @ [CHR 0x27])), hs)) \<and>
   (lbl \<notin> set (map fst hs) \<longrightarrow>
      Hexagon_add hs lbl uv col extra shift =
        (None, hs @ [(lbl, \<lparr>label = lbl, position_uv = uv, color = col, is_extra = extra,
                             extra_shift = shift\<rparr>)])) \<and>
   (distinct (map fst hs) \<longrightarrow> distinct (map fst (snd (Hexagon_add hs lbl uv col extra shift)))) \<and>
   run_add_calls [] add_calls = (None, Hexagon_alls) \<and>
   distinct (map fst Hexagon_alls) \<and>
   (\<forall>(lbl', uv', col', extra', shift') \<in> set add_calls. extra' = (shift' \<noteq> None))"
proof -
  assume ok: "extra = (shift \<noteq> None)"
  have dup: "lbl \<in> set (map fst hs) \<longrightarrow>
      Hexagon_add hs lbl uv col extra shift =
        (Some (JersiError (''no hexagon with label '' @ [CHR 0x27] @ lbl @ [CHR 0x27])), hs)"
    by (simp add: Hexagon_add_def quoted_def)
  have new: "lbl \<notin> set (map fst hs) \<longrightarrow>
      Hexagon_add hs lbl uv col extra shift =
        (None, hs @ [(lbl, \<lparr>label = lbl, position_uv = uv, color = col, is_extra = extra,
                             extra_shift = shift\<rparr>)])"
    using ok by (cases shift; cases extra) (simp_all add: Hexagon_add_def Hexagon_init_def update_fresh)
  have uniq: "distinct (map fst hs) \<longrightarrow> distinct (map fst (snd (Hexagon_add hs lbl uv col extra shift)))"
    by (simp add: Hexagon_add_def distinct_update split: sum.splits)
  have run: "run_add_calls [] add_calls = (None, Hexagon_alls)"
    using startup_succeeds by blast
  have d: "distinct (map fst Hexagon_alls)"
    unfolding Hexagon_labels by simp
  have wf: "\<forall>(lbl', uv', col', extra', shift') \<in> set add_calls. extra' = (shift' \<noteq> None)"
    unfolding add_calls_def by simp
  from dup new uniq run d wf show ?thesis by blast
qed

text \<open>The first call of the module succeeds; repeating its label fails.\<close>

theorem Hexagon_add_contract_witness:
  "Hexagon_add [] ''a1'' (-1, -4) OUTER False None =
     (None, [mk_hexagon (''a1'', (-1, -4), OUTER, False, None)]) \<and>
   Hexagon_add [mk_hexagon (''a1'', (-1, -4), OUTER, False, None)] ''a1'' (0, 0) MAIN False None =
     (Some (JersiError (''no hexagon with label '' @ quoted ''a1'')),
      [mk_hexagon (''a1'', (-1, -4), OUTER, False, None)])"
proof -
  have "Hexagon_add [] ''a1'' (-1, -4) OUTER False None =
     (None, [mk_hexagon (''a1'', (-1, -4), OUTER, False, None)])"
    using Hexagon_add_contract [of False None "''a1''" "[]" "(-1, -4)" OUTER]
    by (simp add: mk_hexagon_def)
  moreover have "Hexagon_add [mk_hexagon (''a1'', (-1, -4), OUTER, False, None)] ''a1'' (0, 0) MAIN False None =
     (Some (JersiError (''no hexagon with label '' @ quoted ''a1'')),
      [mk_hexagon (''a1'', (-1, -4), OUTER, False, None)])"
    using Hexagon_add_contract [of False None "''a1''" "[mk_hexagon (''a1'', (-1, -4), OUTER, False, None)]" "(0, 0)" MAIN]
    by (simp add: mk_hexagon_def quoted_def)
  ultimately show ?thesis by simp
qed

text \<open>
  Outside that condition the constructor's assertion refuses the cell, whether or not
  the label is new.
\<close>

lemma Hexagon_add_checks_the_shift:
  "lbl \<notin> set (map fst hs) \<Longrightarrow> extra \<noteq> (shift \<noteq> None) \<Longrightarrow>
   Hexagon_add hs lbl uv col extra shift =
     (Some (JersiError (''is_extra and extra_shift not consisten for label '' @ quoted lbl)), hs)"
  by (cases shift; cases extra) (simp_all add: Hexagon_add_def Hexagon_init_def)

subsection \<open>C5: reading two kings\<close>

lemma read_lines_two_kings:
  "read_lines (file_lines two_kings_text) [] = Inr [[''K'', ''a4''], [''k'', ''i4'']]"
  by (simp add: two_kings_text_def file_lines_def LF_def CR_def line_is_blank_def
      line_is_comment_def is_space_def at_end_def strip_spaces_def re_split_def item_matches_def
      in_range_def Let_def)

lemma two_kings_result:
  "read_state_file Hexagon_alls S two_kings_text =
    (None, AList.update ''i4'' (Some (KING, BLACK), None)
             (AList.update ''a4'' (Some (KING, WHITE), None) (reset_state Hexagon_alls S)))"
proof -
  let ?S0 = "reset_state Hexagon_alls S"
  let ?S1 = "AList.update ''a4'' (Some (KING, WHITE), None) ?S0"
  have a4: "''a4'' \<in> set (map fst Hexagon_alls)" and i4: "''i4'' \<in> set (map fst Hexagon_alls)"
    by (simp_all add: Hexagon_labels)
  have s1: "set_cube_at_position Hexagon_alls ?S0 ''a4'' ''K'' = (None, ?S1)"
    using a4 by (simp add: set_cube_place0 map_of_reset_Hexagon_alls CUBE_COLORED_TYPES_simps)
  have "map_of ?S1 ''i4'' = Some (None, None)"
    using i4 by (simp add: update_conv' map_of_reset_Hexagon_alls)
  with i4 have s2: "set_cube_at_position Hexagon_alls ?S1 ''i4'' ''k'' =
      (None, AList.update ''i4'' (Some (KING, BLACK), None) ?S1)"
    by (simp add: set_cube_place0 CUBE_COLORED_TYPES_simps)
  show ?thesis
    by (simp add: read_state_file_def read_lines_two_kings s1 s2)
qed

lemma decode_is_inverse_of_code: "(CUBE_COLORED_TYPES code = Some piece) = (code = cube_code piece)"
proof
  assume "code = cube_code piece"
  then show "CUBE_COLORED_TYPES code = Some piece"
    by (cases piece; cases "fst piece"; cases "snd piece")
       (simp_all add: cube_code_def to_lower_def CUBE_COLORED_TYPES_simps)
next
  assume "CUBE_COLORED_TYPES code = Some piece"
  then show "code = cube_code piece"
    unfolding CUBE_COLORED_TYPES_def CUBE_COLORED_TYPES_items_def
    by (auto simp: cube_code_def to_lower_def split: if_splits)
qed

text \<open>
  C5. Reading the text of the two lines \<open>K:a4\<close> and \<open>k:i4\<close> succeeds, from any earlier
  state: afterwards the cell \<open>a4\<close> holds the white king alone, the cell \<open>i4\<close> the black
  king alone, and every other registered cell is empty. The table of the codes is the
  inverse of \<open>cube_code\<close>: a code stands for a piece exactly when it is the letter of the
  kind, in upper case for white and in lower case for black.
\<close>

theorem two_kings:
  "fst (read_state_file Hexagon_alls S two_kings_text) = None \<and>
   map_of (snd (read_state_file Hexagon_alls S two_kings_text)) ''a4'' = Some (Some (KING, WHITE), None) \<and>
   map_of (snd (read_state_file Hexagon_alls S two_kings_text)) ''i4'' = Some (Some (KING, BLACK), None) \<and>
   (\<forall>l \<in> set (map fst Hexagon_alls). l \<noteq> ''a4'' \<and> l \<noteq> ''i4'' \<longrightarrow>
      map_of (snd (read_state_file Hexagon_alls S two_kings_text)) l = Some (None, None)) \<and>
   (\<forall>code piece. (CUBE_COLORED_TYPES code = Some piece) = (code = cube_code piece))"
proof -
  have "\<forall>l \<in> set (map fst Hexagon_alls). l \<noteq> ''a4'' \<and> l \<noteq> ''i4'' \<longrightarrow>
      map_of (snd (read_state_file Hexagon_alls S two_kings_text)) l = Some (None, None)"
    by (auto simp: two_kings_result update_conv' map_of_reset_Hexagon_alls)
  then show ?thesis
    by (simp add: two_kings_result update_conv' decode_is_inverse_of_code)
qed

text \<open>The cell \<open>e5\<close> after reading the two kings over a state with cubes on \<open>c\<close>.\<close>

theorem two_kings_witness:
  "''e5'' \<in> set (map fst Hexagon_alls) \<and>
   fst (read_state_file Hexagon_alls two_wise_at_c two_kings_text) = None \<and>
   map_of (snd (read_state_file Hexagon_alls two_wise_at_c two_kings_text)) ''e5'' = Some (None, None) \<and>
   CUBE_COLORED_TYPES ''k'' = Some (KING, BLACK)"
proof -
  have e5: "''e5'' \<in> set (map fst Hexagon_alls)" by (simp add: Hexagon_labels)
  from two_kings [of two_wise_at_c] e5
  have "fst (read_state_file Hexagon_alls two_wise_at_c two_kings_text) = None"
    and "map_of (snd (read_state_file Hexagon_alls two_wise_at_c two_kings_text)) ''e5'' = Some (None, None)"
    and "(CUBE_COLORED_TYPES ''k'' = Some (KING, BLACK)) = (''k'' = cube_code (KING, BLACK))"
    by auto
  then show ?thesis using e5 by (simp add: cube_code_def to_lower_def)
qed

subsection \<open>C6: the oblique frame\<close>

text \<open>
  C6, as amended. The frame of the transform is the screen's: \<open>UNIT_Y\<close> is \<open>(0, -1)\<close>, which
  points up on the canvas, whose Y grows downward. \<open>UNIT_V\<close> is
  \<open>cos a * UNIT_X + sin a * UNIT_Y\<close> for the angle \<open>a\<close> of 60 degrees: its canvas
  coordinates are the cosine and the negated sine that the library returns, that is
  \<open>UNIT_U\<close> rotated by +60 degrees with Y upward and then flipped in Y. The flip is baked
  into the transform: the unit step along \<open>v\<close> moves the centre by \<open>HEXA_WIDTH\<close> times that
  flipped vector, and with a positive sine its canvas Y decreases.
\<close>

theorem UNIT_V_bakes_in_the_flip:
  "round_double (m_cos lb HEXA_SIDE_ANGLE) = m_cos lb HEXA_SIDE_ANGLE \<Longrightarrow>
   round_double (m_sin lb HEXA_SIDE_ANGLE) = m_sin lb HEXA_SIDE_ANGLE \<Longrightarrow>
   UNIT_Y = (0, - 1) \<and>
   UNIT_V lb = (m_cos lb HEXA_SIDE_ANGLE, - m_sin lb HEXA_SIDE_ANGLE) \<and>
   rotate_ccw lb HEXA_SIDE_ANGLE UNIT_U = (m_cos lb HEXA_SIDE_ANGLE, m_sin lb HEXA_SIDE_ANGLE) \<and>
   UNIT_V lb = flip_y (rotate_ccw lb HEXA_SIDE_ANGLE UNIT_U) \<and>
   (0 < m_sin lb HEXA_SIDE_ANGLE \<longrightarrow> snd (UNIT_V lb) < 0) \<and>
   draw_hexagon_center lb (0, 1) None =
     tv_add ORIGIN (tv_mul HEXA_WIDTH (flip_y (rotate_ccw lb HEXA_SIDE_ANGLE UNIT_U)))"
proof -
  assume c: "round_double (m_cos lb HEXA_SIDE_ANGLE) = m_cos lb HEXA_SIDE_ANGLE"
    and s: "round_double (m_sin lb HEXA_SIDE_ANGLE) = m_sin lb HEXA_SIDE_ANGLE"
  note v = UNIT_V_eq [OF c s]
  note r = rotate_UNIT_U [OF c s]
  have f: "UNIT_V lb = flip_y (rotate_ccw lb HEXA_SIDE_ANGLE UNIT_U)"
    by (simp add: v r flip_y_def)
  have "tv_add (tv_mul (d_of_int 0) UNIT_U) (tv_mul (d_of_int 1) (UNIT_V lb)) = UNIT_V lb"
    using c s
    by (simp add: v UNIT_U_def UNIT_X_eq d_of_int_simps tv_add_def tv_mul_def d_add_def d_mul_def
        round_double_0 round_double_minus)
  then have d: "draw_hexagon_center lb (0, 1) None = tv_add ORIGIN (tv_mul HEXA_WIDTH (UNIT_V lb))"
    by (simp add: draw_hexagon_center_def)
  from v r f d show ?thesis by (simp add: UNIT_Y_eq)
qed

lemma example_libm_doubles:
  "round_double (m_cos example_libm a) = m_cos example_libm a"
  "round_double (m_sin example_libm a) = m_sin example_libm a"
proof -
  show "round_double (m_cos example_libm a) = m_cos example_libm a"
    unfolding example_libm_def
    by (simp, subst round_double_eval [where e = "- 1"])
       (simp_all add: pow2_def round_half_even_def Let_def)
  show "round_double (m_sin example_libm a) = m_sin example_libm a"
    unfolding example_libm_def
    by (simp, subst round_double_eval [where e = "- 1"])
       (simp_all add: pow2_def round_half_even_def Let_def)
qed

text \<open>With the example of the library: \<open>UNIT_V\<close> is \<open>(0.5000000000000001, -0.8660254037844386)\<close>.\<close>

theorem UNIT_V_bakes_in_the_flip_witness:
  "round_double (m_cos example_libm HEXA_SIDE_ANGLE) = m_cos example_libm HEXA_SIDE_ANGLE \<and>
   round_double (m_sin example_libm HEXA_SIDE_ANGLE) = m_sin example_libm HEXA_SIDE_ANGLE \<and>
   UNIT_V example_libm = (4503599627370497 / 2 ^ 53, - (3900231685776981 / 2 ^ 52)) \<and>
   snd (UNIT_V example_libm) < 0"
proof -
  note c = example_libm_doubles(1) [of HEXA_SIDE_ANGLE]
  note s = example_libm_doubles(2) [of HEXA_SIDE_ANGLE]
  from UNIT_V_bakes_in_the_flip [OF c s]
  have "UNIT_V example_libm =
      (m_cos example_libm HEXA_SIDE_ANGLE, - m_sin example_libm HEXA_SIDE_ANGLE)"
    by blast
  then have "UNIT_V example_libm = (4503599627370497 / 2 ^ 53, - (3900231685776981 / 2 ^ 52))"
    by (simp add: example_libm_def)
  with c s show ?thesis by simp
qed

text \<open>
  C6 as stated fails: with the example of the library, \<open>UNIT_V\<close> is not \<open>UNIT_U\<close> rotated by
  +60 degrees with Y upward; its second coordinate is negative where that of the rotated
  vector is positive.
\<close>

theorem UNIT_V_is_not_the_upward_rotation:
  "UNIT_V example_libm \<noteq> rotate_ccw example_libm HEXA_SIDE_ANGLE UNIT_U \<and>
   snd (UNIT_V example_libm) < 0 \<and>
   0 < snd (rotate_ccw example_libm HEXA_SIDE_ANGLE UNIT_U)"
proof -
  note c = example_libm_doubles(1) [of HEXA_SIDE_ANGLE]
  note s = example_libm_doubles(2) [of HEXA_SIDE_ANGLE]
  have v: "UNIT_V example_libm = (4503599627370497 / 2 ^ 53, - (3900231685776981 / 2 ^ 52))"
    using UNIT_V_eq [OF c s] by (simp add: example_libm_def)
  have r: "rotate_ccw example_libm HEXA_SIDE_ANGLE UNIT_U =
      (4503599627370497 / 2 ^ 53, 3900231685776981 / 2 ^ 52)"
    using rotate_UNIT_U [OF c s] by (simp add: example_libm_def)
  show ?thesis unfolding v r by simp
qed

subsection \<open>C7: from a logical coordinate to the plane\<close>


















subsection \<open>C8: the initial position\<close>

lemma init_state_result:
  "fst (init_state Hexagon_alls S) = None \<and>
   map (map_of (snd (init_state Hexagon_alls S))) (map fst Hexagon_alls) =
    [Some (Some (PAPER, WHITE), None), Some (Some (SCISSORS, WHITE), None),
     Some (Some (ROCK, WHITE), None), Some (Some (KING, WHITE), None),
     Some (Some (SCISSORS, WHITE), None), Some (Some (ROCK, WHITE), None),
     Some (Some (PAPER, WHITE), None), Some (Some (MOUNTAIN, WHITE), Some (MOUNTAIN, WHITE)),
     Some (Some (FOOL, WHITE), None), Some (Some (ROCK, WHITE), None),
     Some (Some (PAPER, WHITE), None), Some (Some (SCISSORS, WHITE), None),
     Some (Some (ROCK, WHITE), None), Some (Some (PAPER, WHITE), None),
     Some (Some (SCISSORS, WHITE), None), Some (Some (FOOL, WHITE), None),
     Some (Some (MOUNTAIN, WHITE), Some (MOUNTAIN, WHITE)), Some (None, None),
     Some (None, None), Some (None, None),
     Some (None, None), Some (None, None),
     Some (None, None), Some (None, None),
     Some (Some (WISE, WHITE), Some (WISE, WHITE)), Some (None, None),
     Some (None, None), Some (None, None),
     Some (None, None), Some (None, None),
     Some (None, None), Some (None, None),
     Some (None, None), Some (None, None),
     Some (None, None), Some (None, None),
     Some (None, None), Some (None, None),
     Some (None, None), Some (None, None),
     Some (None, None), Some (None, None),
     Some (None, None), Some (None, None),
     Some (None, None), Some (None, None),
     Some (None, None), Some (None, None),
     Some (None, None), Some (None, None),
     Some (Some (WISE, BLACK), Some (WISE, BLACK)), Some (None, None),
     Some (None, None), Some (None, None),
     Some (None, None), Some (None, None),
     Some (None, None), Some (None, None),
     Some (Some (MOUNTAIN, BLACK), Some (MOUNTAIN, BLACK)), Some (Some (FOOL, BLACK), None),
     Some (Some (SCISSORS, BLACK), None), Some (Some (PAPER, BLACK), None),
     Some (Some (ROCK, BLACK), None), Some (Some (SCISSORS, BLACK), None),
     Some (Some (PAPER, BLACK), None), Some (Some (ROCK, BLACK), None),
     Some (Some (FOOL, BLACK), None), Some (Some (MOUNTAIN, BLACK), Some (MOUNTAIN, BLACK)),
     Some (Some (PAPER, BLACK), None), Some (Some (ROCK, BLACK), None),
     Some (Some (SCISSORS, BLACK), None), Some (Some (KING, BLACK), None),
     Some (Some (ROCK, BLACK), None), Some (Some (SCISSORS, BLACK), None),
     Some (Some (PAPER, BLACK), None)]"
  unfolding init_state_def init_state_calls_def
  by (simp add: set_cube_place0 set_cube_place1 update_conv' map_of_reset_Hexagon_alls
      Hexagon_labels CUBE_COLORED_TYPES_simps)


lemma cell_stacks_Hexagon_alls:
  "cell_stacks Hexagon_alls S False = map (cubes_at S)
    [''a1'', ''a2'', ''a3'', ''a4'', ''a5'', ''a6'', ''a7'',
     ''b1'', ''b2'', ''b3'', ''b4'', ''b5'', ''b6'', ''b7'', ''b8'',
     ''c1'', ''c2'', ''c3'', ''c4'', ''c5'', ''c6'', ''c7'',
     ''d1'', ''d2'', ''d3'', ''d4'', ''d5'', ''d6'', ''d7'', ''d8'',
     ''e1'', ''e2'', ''e3'', ''e4'', ''e5'', ''e6'', ''e7'', ''e8'', ''e9'',
     ''f1'', ''f2'', ''f3'', ''f4'', ''f5'', ''f6'', ''f7'', ''f8'',
     ''g1'', ''g2'', ''g3'', ''g4'', ''g5'', ''g6'', ''g7'',
     ''h1'', ''h2'', ''h3'', ''h4'', ''h5'', ''h6'', ''h7'', ''h8'',
     ''i1'', ''i2'', ''i3'', ''i4'', ''i5'', ''i6'', ''i7''] \<and>
   cell_stacks Hexagon_alls S True = map (cubes_at S) [''a'', ''b'', ''c'', ''g'', ''h'', ''i'']"
  unfolding cell_stacks_def
  by (simp add: startup_succeeds add_calls_def mk_hexagon_def)

text \<open>
  C8, as amended. \<^verbatim>\<open>init_state\<close> succeeds from any earlier state and puts 42 cubes on the
  registered cells. The white home rank is the 15 cells of the rows \<open>a\<close> and \<open>b\<close> and the
  black one the 15 cells of the rows \<open>h\<close> and \<open>i\<close>, one cube per cell; the board cells of
  the rows \<open>c\<close> to \<open>g\<close> are empty. The reserve holds 6 cubes per color, two per cell: white
  on the reserve cells \<open>a\<close>, \<open>b\<close>, \<open>c\<close> and black on \<open>g\<close>, \<open>h\<close>, \<open>i\<close>.
\<close>

theorem init_state_counts:
  "fst (init_state Hexagon_alls S) = None \<and>
   length (concat (map (cubes_at (snd (init_state Hexagon_alls S))) (map fst Hexagon_alls))) = 42 \<and>
   count_color WHITE (cell_stacks Hexagon_alls (snd (init_state Hexagon_alls S)) False) = 15 \<and>
   count_color BLACK (cell_stacks Hexagon_alls (snd (init_state Hexagon_alls S)) False) = 15 \<and>
   count_height 1 (cell_stacks Hexagon_alls (snd (init_state Hexagon_alls S)) False) = 30 \<and>
   count_height 2 (cell_stacks Hexagon_alls (snd (init_state Hexagon_alls S)) False) = 0 \<and>
   count_color WHITE (cell_stacks Hexagon_alls (snd (init_state Hexagon_alls S)) True) = 6 \<and>
   count_color BLACK (cell_stacks Hexagon_alls (snd (init_state Hexagon_alls S)) True) = 6 \<and>
   count_height 2 (cell_stacks Hexagon_alls (snd (init_state Hexagon_alls S)) True) = 6 \<and>
   count_height 1 (cell_stacks Hexagon_alls (snd (init_state Hexagon_alls S)) True) = 0 \<and>
   map (cubes_at (snd (init_state Hexagon_alls S)))
     [''a1'', ''a2'', ''a3'', ''a4'', ''a5'', ''a6'', ''a7'',
      ''b1'', ''b2'', ''b3'', ''b4'', ''b5'', ''b6'', ''b7'', ''b8''] =
     [[(PAPER, WHITE)], [(SCISSORS, WHITE)], [(ROCK, WHITE)], [(KING, WHITE)],
      [(SCISSORS, WHITE)], [(ROCK, WHITE)], [(PAPER, WHITE)],
      [(FOOL, WHITE)], [(ROCK, WHITE)], [(PAPER, WHITE)], [(SCISSORS, WHITE)],
      [(ROCK, WHITE)], [(PAPER, WHITE)], [(SCISSORS, WHITE)], [(FOOL, WHITE)]] \<and>
   map (cubes_at (snd (init_state Hexagon_alls S)))
     [''h1'', ''h2'', ''h3'', ''h4'', ''h5'', ''h6'', ''h7'', ''h8'',
      ''i1'', ''i2'', ''i3'', ''i4'', ''i5'', ''i6'', ''i7''] =
     [[(FOOL, BLACK)], [(SCISSORS, BLACK)], [(PAPER, BLACK)], [(ROCK, BLACK)],
      [(SCISSORS, BLACK)], [(PAPER, BLACK)], [(ROCK, BLACK)], [(FOOL, BLACK)],
      [(PAPER, BLACK)], [(ROCK, BLACK)], [(SCISSORS, BLACK)], [(KING, BLACK)],
      [(ROCK, BLACK)], [(SCISSORS, BLACK)], [(PAPER, BLACK)]] \<and>
   concat (map (cubes_at (snd (init_state Hexagon_alls S)))
     [''c1'', ''c2'', ''c3'', ''c4'', ''c5'', ''c6'', ''c7'',
      ''d1'', ''d2'', ''d3'', ''d4'', ''d5'', ''d6'', ''d7'', ''d8'',
      ''e1'', ''e2'', ''e3'', ''e4'', ''e5'', ''e6'', ''e7'', ''e8'', ''e9'',
      ''f1'', ''f2'', ''f3'', ''f4'', ''f5'', ''f6'', ''f7'', ''f8'',
      ''g1'', ''g2'', ''g3'', ''g4'', ''g5'', ''g6'', ''g7'']) = [] \<and>
   map (cubes_at (snd (init_state Hexagon_alls S))) [''a'', ''b'', ''c'', ''g'', ''h'', ''i''] =
     [[(MOUNTAIN, WHITE), (MOUNTAIN, WHITE)], [(MOUNTAIN, WHITE), (MOUNTAIN, WHITE)],
      [(WISE, WHITE), (WISE, WHITE)], [(WISE, BLACK), (WISE, BLACK)],
      [(MOUNTAIN, BLACK), (MOUNTAIN, BLACK)], [(MOUNTAIN, BLACK), (MOUNTAIN, BLACK)]]"
  using init_state_result [of S]
  by (simp add: Hexagon_labels cell_stacks_Hexagon_alls cubes_at_def slots_cubes_def
      count_color_def count_height_def)

text \<open>
  C8 as stated fails: the cubes are not 44, the board does not hold 16 cubes of a color,
  and the reserve cubes are not single.
\<close>

theorem init_state_puts_42_cubes:
  "length (concat (map (cubes_at (snd (init_state Hexagon_alls []))) (map fst Hexagon_alls))) \<noteq> 44 \<and>
   count_color WHITE (cell_stacks Hexagon_alls (snd (init_state Hexagon_alls [])) False) \<noteq> 16 \<and>
   count_color BLACK (cell_stacks Hexagon_alls (snd (init_state Hexagon_alls [])) False) \<noteq> 16 \<and>
   count_height 1 (cell_stacks Hexagon_alls (snd (init_state Hexagon_alls [])) True) \<noteq> 6"
  using init_state_result [of "[]"]
  by (simp add: Hexagon_labels cell_stacks_Hexagon_alls cubes_at_def slots_cubes_def
      count_color_def count_height_def)

subsection \<open>C9: the code of an accepted item is a key of the table\<close>

lemma re_split_from_no_sep: "sep \<notin> set s \<Longrightarrow> re_split_from sep cur s = [cur @ s]"
  by (induction s arbitrary: cur) auto

lemma item_matches_shape:
  "item_matches item \<Longrightarrow>
   \<exists>c row rest. item = c # CHR '':'' # row # rest \<and> c \<in> set ''KFRPSMWkfrpsmw'' \<and>
     CHR '':'' \<notin> set (row # rest)"
  unfolding item_matches_def
  by (auto simp: in_range_def at_end_def LF_def split: list.splits)

lemma CUBE_COLORED_TYPES_dom:
  "dom CUBE_COLORED_TYPES = (\<lambda>c. [c]) ` set ''KFRPSMWkfrpsmw''"
  by (simp add: CUBE_COLORED_TYPES_def CUBE_COLORED_TYPES_items_def dom_map_of_conv_image_fst)

lemma set_cube_with_known_code:
  "CUBE_COLORED_TYPES c = Some x \<Longrightarrow>
   set_cube_at_position hs S p c =
     (if p \<notin> set (map fst hs)
      then (Some (JersiError (''no hexagon at label '' @ quoted p)), S)
      else (case map_of S p of
              None \<Rightarrow> (Some (KeyError p), S)
            | Some (None, t) \<Rightarrow> (None, AList.update p (Some x, t) S)
            | Some (Some b, None) \<Rightarrow> (None, AList.update p (Some b, Some x) S)
            | Some (Some b, Some t) \<Rightarrow> (Some (TypeError raise_str_message), S)))"
  by (simp add: set_cube_at_position_def split: option.splits prod.splits)

lemma accepted_item_lookup:
  "item_matches item \<Longrightarrow>
   \<exists>c p x. re_split (CHR '':'') item = [c, p] \<and> CUBE_COLORED_TYPES c = Some x"
proof -
  assume "item_matches item"
  from item_matches_shape [OF this]
  obtain c row rest where item: "item = c # CHR '':'' # row # rest"
    and c: "c \<in> set ''KFRPSMWkfrpsmw''" and no: "CHR '':'' \<notin> set (row # rest)"
    by blast
  from c have "c \<noteq> CHR '':''" by auto
  then have split: "re_split (CHR '':'') item = [[c], row # rest]"
    using re_split_from_no_sep [OF no, of "[]"] by (simp add: re_split_def item)
  from c have "[c] \<in> dom CUBE_COLORED_TYPES"
    unfolding CUBE_COLORED_TYPES_dom by (rule imageI)
  then obtain x where x: "CUBE_COLORED_TYPES [c] = Some x" by blast
  from split x show ?thesis by blast
qed

lemma accepted_codes_are_the_keys:
  "(\<exists>item. item_matches item \<and> hd (re_split (CHR '':'') item) = code) = (code \<in> dom CUBE_COLORED_TYPES)"
proof
  assume "\<exists>item. item_matches item \<and> hd (re_split (CHR '':'') item) = code"
  then obtain item where "item_matches item" "hd (re_split (CHR '':'') item) = code" by blast
  with accepted_item_lookup [of item] show "code \<in> dom CUBE_COLORED_TYPES" by auto
next
  assume "code \<in> dom CUBE_COLORED_TYPES"
  then obtain c where c: "c \<in> set ''KFRPSMWkfrpsmw''" "code = [c]"
    unfolding CUBE_COLORED_TYPES_dom by blast
  then have "c \<noteq> CHR '':''" by auto
  then have "hd (re_split (CHR '':'') (c # '':a'')) = code"
    by (simp add: re_split_def c)
  moreover from c have "item_matches (c # '':a'')"
    by (simp add: item_matches_def in_range_def at_end_def)
  ultimately show "\<exists>item. item_matches item \<and> hd (re_split (CHR '':'') item) = code" by blast
qed

text \<open>
  C9. An item the pattern accepts splits at \<open>:\<close> into a cube label and a position label,
  and the cube label is a key of \<open>CUBE_COLORED_TYPES\<close>. Applying it therefore ends in one
  of: the \<^verbatim>\<open>JersiError\<close> of an unregistered position, the \<^verbatim>\<open>KeyError\<close> of a position the
  state lacks, the cube put on the bottom or on the top slot, or the \<^verbatim>\<open>TypeError\<close> of a full
  cell; never in a failed lookup of the cube label. The cube labels of the accepted items
  are exactly the keys of the table. (For a label outside the table the second assertion
  of \<^verbatim>\<open>set_cube_at_position\<close> does not fire: \<open>unknown_code_is_a_KeyError\<close>.)
\<close>

theorem accepted_item_decodes:
  "(item_matches item \<longrightarrow>
     (\<exists>c p x. re_split (CHR '':'') item = [c, p] \<and> CUBE_COLORED_TYPES c = Some x \<and>
       (\<forall>hs S. set_cube_at_position hs S p c =
          (if p \<notin> set (map fst hs)
           then (Some (JersiError (''no hexagon at label '' @ quoted p)), S)
           else (case map_of S p of
                   None \<Rightarrow> (Some (KeyError p), S)
                 | Some (None, t) \<Rightarrow> (None, AList.update p (Some x, t) S)
                 | Some (Some b, None) \<Rightarrow> (None, AList.update p (Some b, Some x) S)
                 | Some (Some b, Some t) \<Rightarrow> (Some (TypeError raise_str_message), S)))))) \<and>
   ((\<exists>item'. item_matches item' \<and> hd (re_split (CHR '':'') item') = code) =
      (code \<in> dom CUBE_COLORED_TYPES))"
proof -
  have "\<exists>c p x. re_split (CHR '':'') item = [c, p] \<and> CUBE_COLORED_TYPES c = Some x \<and>
       (\<forall>hs S. set_cube_at_position hs S p c =
          (if p \<notin> set (map fst hs)
           then (Some (JersiError (''no hexagon at label '' @ quoted p)), S)
           else (case map_of S p of
                   None \<Rightarrow> (Some (KeyError p), S)
                 | Some (None, t) \<Rightarrow> (None, AList.update p (Some x, t) S)
                 | Some (Some b, None) \<Rightarrow> (None, AList.update p (Some b, Some x) S)
                 | Some (Some b, Some t) \<Rightarrow> (Some (TypeError raise_str_message), S))))"
    if "item_matches item"
  proof -
    from accepted_item_lookup [OF that]
    obtain c p x where *: "re_split (CHR '':'') item = [c, p]" "CUBE_COLORED_TYPES c = Some x"
      by blast
    with set_cube_with_known_code [OF *(2)] show ?thesis by blast
  qed
  with accepted_codes_are_the_keys show ?thesis by blast
qed

text \<open>The item \<open>K:a4\<close> is accepted and splits into the known code \<open>K\<close> and \<open>a4\<close>.\<close>

theorem accepted_item_decodes_witness:
  "item_matches ''K:a4'' \<and>
   (\<exists>c p x. re_split (CHR '':'') ''K:a4'' = [c, p] \<and> CUBE_COLORED_TYPES c = Some x \<and>
      c = ''K'' \<and> p = ''a4'')"
proof -
  have m: "item_matches ''K:a4''"
    by (simp add: item_matches_def in_range_def at_end_def)
  from accepted_item_decodes [of "''K:a4''"] m
  obtain c p x where *: "re_split (CHR '':'') ''K:a4'' = [c, p]" "CUBE_COLORED_TYPES c = Some x"
    by blast
  have "re_split (CHR '':'') ''K:a4'' = [''K'', ''a4'']" by (simp add: re_split_def)
  with * have "c = ''K''" "p = ''a4''" by simp_all
  with * m show ?thesis by blast
qed

lemma unknown_code_is_a_KeyError:
  "p \<in> set (map fst hs) \<Longrightarrow> map_of S p = Some (None, t) \<Longrightarrow> CUBE_COLORED_TYPES c = None \<Longrightarrow>
   set_cube_at_position hs S p c = (Some (KeyError c), S)"
  by (simp add: set_cube_at_position_def)

subsection \<open>C10: cubes fill a cell bottom first\<close>

lemma set_cube_success:
  "set_cube_at_position hs S p c = (None, S') \<Longrightarrow>
   \<exists>x. CUBE_COLORED_TYPES c = Some x \<and>
     ((\<exists>t. map_of S p = Some (None, t) \<and> S' = AList.update p (Some x, t) S) \<or>
      (\<exists>b. map_of S p = Some (Some b, None) \<and> S' = AList.update p (Some b, Some x) S))"
  by (auto simp: set_cube_at_position_def split: if_splits option.splits prod.splits)

text \<open>
  C10. In every state reached from a reset by successful calls of
  \<^verbatim>\<open>set_cube_at_position\<close>, every registered label has its two slots, and if the top
  slot is occupied then so is the bottom slot.
\<close>

theorem bottom_before_top:
  "reachable S \<Longrightarrow> l \<in> set (map fst Hexagon_alls) \<Longrightarrow>
   \<exists>sl. map_of S l = Some sl \<and> (snd sl \<noteq> None \<longrightarrow> fst sl \<noteq> None)"
proof (induction arbitrary: l rule: reachable.induct)
  case (after_reset S)
  then show ?case by (simp add: map_of_reset_Hexagon_alls)
next
  case (after_set_cube S p c S')
  from after_set_cube.IH [OF after_set_cube.prems]
  obtain sl where sl: "map_of S l = Some sl" "snd sl \<noteq> None \<longrightarrow> fst sl \<noteq> None"
    by blast
  from set_cube_success [OF after_set_cube.hyps(2)]
  obtain x where
    S': "(\<exists>t. map_of S p = Some (None, t) \<and> S' = AList.update p (Some x, t) S) \<or>
         (\<exists>b. map_of S p = Some (Some b, None) \<and> S' = AList.update p (Some b, Some x) S)"
    by blast
  show ?case
  proof (cases "l = p")
    case False
    with S' have "map_of S' l = map_of S l"
      by (auto simp: update_conv')
    with sl show ?thesis by simp
  next
    case True
    from S' show ?thesis
    proof
      assume "\<exists>t. map_of S p = Some (None, t) \<and> S' = AList.update p (Some x, t) S"
      then obtain t where t: "map_of S p = Some (None, t)" "S' = AList.update p (Some x, t) S"
        by blast
      with sl True have "t = None" by (cases t) auto
      with t True show ?thesis by (simp add: update_conv')
    next
      assume "\<exists>b. map_of S p = Some (Some b, None) \<and> S' = AList.update p (Some b, Some x) S"
      then obtain b where "S' = AList.update p (Some b, Some x) S" by blast
      with True show ?thesis by (simp add: update_conv')
    qed
  qed
qed

text \<open>
  The property at the state with two wise cubes on \<open>c\<close>: the top slot is occupied, and
  so is the bottom slot.
\<close>

theorem bottom_before_top_witness:
  "reachable two_wise_at_c \<and> ''c'' \<in> set (map fst Hexagon_alls) \<and>
   (\<exists>sl. map_of two_wise_at_c ''c'' = Some sl \<and> snd sl = Some (WISE, WHITE) \<and> fst sl \<noteq> None)"
proof -
  have c: "''c'' \<in> set (map fst Hexagon_alls)" by (simp add: Hexagon_labels)
  from bottom_before_top [OF reachable_two_wise_at_c c]
  obtain sl where sl: "map_of two_wise_at_c ''c'' = Some sl" "snd sl \<noteq> None \<longrightarrow> fst sl \<noteq> None"
    by blast
  have "map_of two_wise_at_c ''c'' = Some (Some (WISE, WHITE), Some (WISE, WHITE))"
    using two_wise_at_c_eq by blast
  with sl(1) have "sl = (Some (WISE, WHITE), Some (WISE, WHITE))" by simp
  then have "snd sl = Some (WISE, WHITE)" by simp
  with sl have "map_of two_wise_at_c ''c'' = Some sl \<and> snd sl = Some (WISE, WHITE) \<and> fst sl \<noteq> None"
    by simp
  then show ?thesis using reachable_two_wise_at_c c by blast
qed

end
